theory Spec2Isabelle
  imports Complex_Main "HOL-Library.Sublist" "HOL-Library.Char_ord" "HOL-Library.List_Lexorder"
    "HOL-Library.AList" "HOL-Library.Multiset"

begin

section \<open>Text helpers\<close>

text \<open>
  Python strings are modelled as Isabelle strings (lists of characters). A character
  is a code point below 256, and the character classes below are those of Python on
  these code points.
\<close>

definition is_upper :: "char \<Rightarrow> bool" where
  "is_upper c = (let n = (of_char c :: nat) in 65 \<le> n \<and> n \<le> 90)"

definition is_lower :: "char \<Rightarrow> bool" where
  "is_lower c = (let n = (of_char c :: nat) in 97 \<le> n \<and> n \<le> 122)"

definition is_digit :: "char \<Rightarrow> bool" where
  "is_digit c = (let n = (of_char c :: nat) in 48 \<le> n \<and> n \<le> 57)"

definition is_alpha :: "char \<Rightarrow> bool" where
  \<comment> \<open>the regex class \<open>[a-zA-Z]\<close>\<close>
  "is_alpha c = (is_upper c \<or> is_lower c)"

definition is_word :: "char \<Rightarrow> bool" where
  \<comment> \<open>the regex class \<open>\w\<close>: the underscore and the alphanumeric characters, which
      are the ASCII letters and digits, the code points \<open>AA\<close>, \<open>B2\<close>, \<open>B3\<close>, \<open>B5\<close>, \<open>B9\<close>,
      \<open>BA\<close>, \<open>BC\<close> to \<open>BE\<close> and the letters from \<open>C0\<close> to \<open>FF\<close> (all but \<open>D7\<close> and \<open>F7\<close>)\<close>
  "is_word c =
     (is_alpha c \<or> is_digit c \<or> c = CHR ''_'' \<or>
      (let n = (of_char c :: nat) in
       n = 0xAA \<or> n = 0xB2 \<or> n = 0xB3 \<or> n = 0xB5 \<or> n = 0xB9 \<or> n = 0xBA \<or>
       (0xBC \<le> n \<and> n \<le> 0xBE) \<or> (0xC0 \<le> n \<and> n \<noteq> 0xD7 \<and> n \<noteq> 0xF7)))"

text \<open>
  \<open>str.lower()\<close> is used to look for ASCII text in a label and for the tags between
  word boundaries. It also turns the letters from \<open>C0\<close> to \<open>DE\<close> into those from \<open>E0\<close> to
  \<open>FE\<close>; these are word characters before and after, and none is an ASCII character, so
  that leaving them as they are changes no result.
\<close>

definition lower_char :: "char \<Rightarrow> char" where
  "lower_char c =
     (case map_of (zip ''ABCDEFGHIJKLMNOPQRSTUVWXYZ'' ''abcdefghijklmnopqrstuvwxyz'') c of
        Some d \<Rightarrow> d
      | None \<Rightarrow> c)"

definition lower :: "string \<Rightarrow> string" where
  \<comment> \<open>\<open>str.lower()\<close>\<close>
  "lower s = map lower_char s"

fun contains :: "string \<Rightarrow> string \<Rightarrow> bool" where
  \<comment> \<open>\<open>contains sub s\<close> is Python's \<open>sub in s\<close>\<close>
  "contains sub [] = (sub = [])"
| "contains sub (c # cs) = (prefix sub (c # cs) \<or> contains sub cs)"

section \<open>Label clean-up\<close>

text \<open>
  \<^verbatim>\<open>re.sub(r'^FT[a-zA-Z]+-', '', raw_state or "")\<close>: the pattern is anchored at the start
  of the text, so at most one occurrence is replaced. The letters of \<open>[a-zA-Z]+\<close> cannot
  be a hyphen, so the pattern matches exactly when the maximal run of letters after
  \<open>FT\<close> is non-empty and is followed by a hyphen.
\<close>

definition clean_phase_state :: "string \<Rightarrow> string" where
  "clean_phase_state raw_state =
     (case raw_state of
        f # t # r \<Rightarrow>
          (if f = CHR ''F'' \<and> t = CHR ''T'' then
             (case dropWhile is_alpha r of
                h # rest \<Rightarrow>
                  (if takeWhile is_alpha r \<noteq> [] \<and> h = CHR ''-'' then rest else raw_state)
              | [] \<Rightarrow> raw_state)
           else raw_state)
      | _ \<Rightarrow> raw_state)"

text \<open>
  The prefix family as the specification words it: two uppercase letters, then
  lowercase letters, then a hyphen. \<open>spec_prefix_split s\<close> gives what is left of \<open>s\<close>
  after such a prefix, when there is one.
\<close>

definition spec_prefix_split :: "string \<Rightarrow> string option" where
  "spec_prefix_split s =
     (case s of
        a # b # r \<Rightarrow>
          (if is_upper a \<and> is_upper b then
             (case dropWhile is_lower r of
                h # rest \<Rightarrow>
                  (if takeWhile is_lower r \<noteq> [] \<and> h = CHR ''-'' then Some rest else None)
              | [] \<Rightarrow> None)
           else None)
      | _ \<Rightarrow> None)"

section \<open>Phase classification\<close>

definition is_metal_liquid_phase :: "string \<Rightarrow> bool" where
  "is_metal_liquid_phase name =
     (let n = lower name in contains ''fe-liq'' n \<or> contains ''liquid'' n)"

definition is_slag_liquid_phase :: "string \<Rightarrow> bool" where
  "is_slag_liquid_phase name =
     (let n = lower name in contains ''slag'' n \<and> (contains ''liq'' n \<or> contains ''liquid'' n))"

text \<open>
  \<^verbatim>\<open>re.search(r'\b(bcc|fcc|hcp)\b', n)\<close>. A word boundary \<open>\b\<close> lies between a word
  character and a non-word character or an end of the text. Each tag starts and ends
  with a letter, so a tag matches at a position when the character before it (if any)
  and the character after it (if any) are not word characters. \<open>search_tag pw s\<close> scans
  \<open>s\<close>, \<open>pw\<close> telling whether the character before \<open>s\<close> is a word character.
\<close>

definition tag_here :: "string \<Rightarrow> bool" where
  "tag_here s =
     ((prefix ''bcc'' s \<or> prefix ''fcc'' s \<or> prefix ''hcp'' s) \<and>
      (case drop 3 s of [] \<Rightarrow> True | c # _ \<Rightarrow> \<not> is_word c))"

fun search_tag :: "bool \<Rightarrow> string \<Rightarrow> bool" where
  "search_tag pw [] = False"
| "search_tag pw (c # cs) = ((\<not> pw \<and> tag_here (c # cs)) \<or> search_tag (is_word c) cs)"

definition is_metal_intermetallic_phase :: "string \<Rightarrow> bool" where
  "is_metal_intermetallic_phase name =
     (let n = lower name in
      if contains ''liq'' n \<or> contains ''liquid'' n \<or> contains ''slag'' n then False
      else search_tag False n \<or> (contains ''fe'' n \<and> contains ''si'' n \<and> \<not> contains ''o'' n))"

fun replace_all :: "string \<Rightarrow> string \<Rightarrow> string \<Rightarrow> string" where
  \<comment> \<open>\<open>s.replace(old, new)\<close> for a non-empty \<open>old\<close>: leftmost occurrences, not overlapping\<close>
  "replace_all old new [] = []"
| "replace_all old new (c # cs) =
     (if old \<noteq> [] \<and> prefix old (c # cs)
      then new @ replace_all old new (drop (length old) (c # cs))
      else c # replace_all old new cs)"

definition is_metal_intermetallic_puresolid :: "string \<Rightarrow> bool" where
  "is_metal_intermetallic_puresolid name =
     (let raw = replace_all ''(s)'' '''' name in
      contains ''Fe'' raw \<and> contains ''Si'' raw \<and> \<not> contains ''O'' raw)"

definition is_slag_solid_phase :: "string \<Rightarrow> bool" where
  "is_slag_solid_phase name =
     (let n = lower name in
      if contains ''liq'' n \<or> contains ''liquid'' n then False
      else if contains ''slag'' n then True
      else contains ''o'' n)"

definition is_slag_puresolid :: "string \<Rightarrow> bool" where
  "is_slag_puresolid name = contains ''O'' name"

section \<open>Floating-point numbers\<close>

text \<open>
  A Python float is an IEEE 754 binary64 value: a finite number, an infinity or NaN.
  Every finite binary64 value is a rational number, and \<open>Fin r\<close> stands for the float
  whose exact value is \<open>r\<close>. The sign of zero is not represented: the program never
  shows it (\<open>fmt3\<close> and \<open>fmt4\<close> print every zero as \<open>0\<close>).
\<close>

datatype pyfloat = Fin rat | PInf | NInf | NaN

definition round_even :: "rat \<Rightarrow> int" where
  \<comment> \<open>the nearest integer, a tie going to the even one\<close>
  "round_even x =
     (let f = \<lfloor>x\<rfloor>; d = x - of_int f in
      if d < 1 / 2 then f
      else if 1 / 2 < d then f + 1
      else if even f then f else f + 1)"

fun bitlen_nat :: "nat \<Rightarrow> nat" where
  \<comment> \<open>the number of binary digits of \<open>n\<close>\<close>
  "bitlen_nat n = (if n = 0 then 0 else bitlen_nat (n div 2) + 1)"

declare bitlen_nat.simps [simp del]

definition pow2 :: "int \<Rightarrow> rat" where
  "pow2 e = (if 0 \<le> e then 2 ^ nat e else 1 / 2 ^ nat (- e))"

definition ilog2 :: "rat \<Rightarrow> int" where
  \<comment> \<open>for \<open>0 < a\<close>: the integer \<open>e\<close> with \<open>2 ^ e \<le> a < 2 ^ (e + 1)\<close>, read off the number of
      binary digits of the integer part of \<open>a\<close>, or of \<open>1 / a\<close> rounded up when \<open>a < 1\<close>\<close>
  "ilog2 a =
     (if 1 \<le> a then int (bitlen_nat (nat \<lfloor>a\<rfloor>)) - 1
      else - int (bitlen_nat (nat (\<lceil>1 / a\<rceil> - 1))))"

definition to_double :: "rat \<Rightarrow> pyfloat" where
  \<comment> \<open>rounding of an exact value to binary64, to nearest, ties to even: 53 significant
      bits, least exponent \<open>-1022\<close> (below it the spacing stays \<open>2 ^ -1074\<close>), and a
      result of \<open>2 ^ 1024\<close> or more is an infinity\<close>
  "to_double r =
     (if r = 0 then Fin 0
      else
        let a = \<bar>r\<bar>;
            e = max (ilog2 a) (- 1022);
            q = pow2 (e - 52);
            v = of_int (round_even (a / q)) * q in
        if pow2 1024 \<le> v then (if 0 < r then PInf else NInf)
        else Fin (if 0 < r then v else - v))"

definition is_finite :: "pyfloat \<Rightarrow> bool" where
  "is_finite x = (case x of Fin _ \<Rightarrow> True | _ \<Rightarrow> False)"

subsection \<open>Reading a float from text\<close>

definition is_space :: "char \<Rightarrow> bool" where
  \<comment> \<open>the characters that \<open>str.strip()\<close> removes and the regex class \<open>\s\<close> matches\<close>
  "is_space c =
     (let n = (of_char c :: nat) in
      (9 \<le> n \<and> n \<le> 13) \<or> (28 \<le> n \<and> n \<le> 32) \<or> n = 0x85 \<or> n = 0xA0)"

definition strip :: "string \<Rightarrow> string" where
  "strip s = rev (dropWhile is_space (rev (dropWhile is_space s)))"

definition is_float_space :: "char \<Rightarrow> bool" where
  \<comment> \<open>the characters that \<open>float()\<close> removes at both ends of its argument: the
      separators \<open>1C\<close> to \<open>1F\<close> are not among them\<close>
  "is_float_space c =
     (let n = (of_char c :: nat) in (9 \<le> n \<and> n \<le> 13) \<or> n = 32 \<or> n = 0x85 \<or> n = 0xA0)"

definition float_strip :: "string \<Rightarrow> string" where
  "float_strip s = rev (dropWhile is_float_space (rev (dropWhile is_float_space s)))"

definition digit_val :: "char \<Rightarrow> nat" where
  "digit_val c = of_char c - 48"

text \<open>
  \<open>digits_acc v k s\<close> reads a run of digits from the front of \<open>s\<close>, in which single
  underscores may stand between two digits: \<open>v\<close> is the value and \<open>k\<close> the number of
  digits read so far. It returns the value, the number of digits and the rest.
\<close>

fun digits_acc :: "nat \<Rightarrow> nat \<Rightarrow> string \<Rightarrow> nat \<times> nat \<times> string" where
  "digits_acc v k [] = (v, k, [])"
| "digits_acc v k (c # cs) =
     (if is_digit c then digits_acc (10 * v + digit_val c) (Suc k) cs
      else if c = CHR ''_'' \<and> 0 < k \<and> (case cs of d # _ \<Rightarrow> is_digit d | [] \<Rightarrow> False)
      then digits_acc v k cs
      else (v, k, c # cs))"

definition take_sign :: "string \<Rightarrow> bool \<times> string" where
  \<comment> \<open>an optional sign: whether it is a minus, and the rest\<close>
  "take_sign s =
     (case s of
        c # r \<Rightarrow> if c = CHR ''-'' then (True, r) else if c = CHR ''+'' then (False, r) else (False, s)
      | [] \<Rightarrow> (False, s))"

definition parse_exponent :: "string \<Rightarrow> int option" where
  \<comment> \<open>what may follow the mantissa: nothing, or \<open>e\<close> or \<open>E\<close>, an optional sign and digits\<close>
  "parse_exponent s =
     (case s of
        [] \<Rightarrow> Some 0
      | c # t \<Rightarrow>
          if c = CHR ''e'' \<or> c = CHR ''E'' then
            (let (eneg, t1) = take_sign t; (ev, ek, r3) = digits_acc 0 0 t1 in
             if ek = 0 \<or> r3 \<noteq> [] then None
             else Some (if eneg then - int ev else int ev))
          else None)"

definition pow10 :: "int \<Rightarrow> rat" where
  "pow10 e = (if 0 \<le> e then 10 ^ nat e else 1 / 10 ^ nat (- e))"

definition parse_number :: "string \<Rightarrow> rat option" where
  \<comment> \<open>an unsigned decimal numeral: digits, an optional point and digits (a digit on one
      side of the point at least), an optional exponent; the exact value\<close>
  "parse_number s =
     (let (iv, ik, r1) = digits_acc 0 0 s;
          (fv, fk, r2) = (case r1 of
                            c # t \<Rightarrow> if c = CHR ''.'' then digits_acc 0 0 t else (0, 0, r1)
                          | [] \<Rightarrow> (0, 0, r1)) in
      if ik + fk = 0 then None
      else
        (case parse_exponent r2 of
           None \<Rightarrow> None
         | Some e \<Rightarrow> Some ((of_nat iv + of_nat fv / 10 ^ fk) * pow10 e)))"

definition py_float :: "string \<Rightarrow> pyfloat option" where
  \<comment> \<open>\<open>float(s)\<close> on a string; \<open>None\<close> is the \<open>ValueError\<close>\<close>
  "py_float s0 =
     (let (neg, s1) = take_sign (float_strip s0); l = lower s1 in
      if l = ''inf'' \<or> l = ''infinity'' then Some (if neg then NInf else PInf)
      else if l = ''nan'' then Some NaN
      else
        (case parse_number s1 of
           None \<Rightarrow> None
         | Some r \<Rightarrow> Some (to_double (if neg then - r else r))))"

definition fnum :: "string option \<Rightarrow> pyfloat" where
  \<comment> \<open>the argument is an attribute value, \<open>None\<close> when the attribute is absent\<close>
  "fnum x =
     (case x of
        None \<Rightarrow> Fin 0
      | Some t \<Rightarrow>
          (let s = replace_all ''D'' ''E'' (strip t) in
           if s = [] then Fin 0
           else (case py_float s of None \<Rightarrow> Fin 0 | Some v \<Rightarrow> v)))"

subsection \<open>Arithmetic and comparison\<close>

text \<open>
  The operations of Python floats: the exact result rounded to binary64, with the
  IEEE 754 rules for infinities and NaN. Every comparison with NaN is false.
\<close>

fun fneg :: "pyfloat \<Rightarrow> pyfloat" where
  "fneg (Fin a) = Fin (- a)"
| "fneg PInf = NInf"
| "fneg NInf = PInf"
| "fneg NaN = NaN"

fun fabs :: "pyfloat \<Rightarrow> pyfloat" where
  "fabs (Fin a) = Fin \<bar>a\<bar>"
| "fabs PInf = PInf"
| "fabs NInf = PInf"
| "fabs NaN = NaN"

fun fadd :: "pyfloat \<Rightarrow> pyfloat \<Rightarrow> pyfloat" where
  "fadd (Fin a) (Fin b) = to_double (a + b)"
| "fadd NaN y = NaN"
| "fadd x NaN = NaN"
| "fadd PInf NInf = NaN"
| "fadd NInf PInf = NaN"
| "fadd PInf y = PInf"
| "fadd NInf y = NInf"
| "fadd x PInf = PInf"
| "fadd x NInf = NInf"

definition fsub :: "pyfloat \<Rightarrow> pyfloat \<Rightarrow> pyfloat" where
  "fsub x y = fadd x (fneg y)"



fun fless :: "pyfloat \<Rightarrow> pyfloat \<Rightarrow> bool" where
  \<comment> \<open>\<open>x < y\<close>\<close>
  "fless (Fin a) (Fin b) = (a < b)"
| "fless NaN y = False"
| "fless x NaN = False"
| "fless x NInf = False"
| "fless PInf y = False"
| "fless NInf y = True"
| "fless x PInf = True"

definition fgreater :: "pyfloat \<Rightarrow> pyfloat \<Rightarrow> bool" where
  \<comment> \<open>\<open>x > y\<close>\<close>
  "fgreater x y = fless y x"

definition fge :: "pyfloat \<Rightarrow> pyfloat \<Rightarrow> bool" where
  \<comment> \<open>\<open>x >= y\<close>\<close>
  "fge x y = (x \<noteq> NaN \<and> y \<noteq> NaN \<and> \<not> fless x y)"

definition lit :: "rat \<Rightarrow> pyfloat" where
  \<comment> \<open>a decimal literal of the source, such as \<open>0.01\<close>: the nearest float\<close>
  "lit r = to_double r"

definition G_MIN :: pyfloat where
  "G_MIN = lit (1 / 100)"

subsection \<open>Printing a float\<close>

function show_nat :: "nat \<Rightarrow> string" where
  \<comment> \<open>the decimal digits of a natural number\<close>
  "show_nat n =
     (if n < 10 then [''0123456789'' ! n]
      else show_nat (n div 10) @ [''0123456789'' ! (n mod 10)])"
  by pat_completeness auto
termination
  by (relation "measure (\<lambda>n. n)") auto

declare show_nat.simps [simp del]

definition zfill :: "nat \<Rightarrow> string \<Rightarrow> string" where
  \<comment> \<open>zeros on the left up to the width\<close>
  "zfill w s = replicate (w - length s) (CHR ''0'') @ s"

definition fixed_str :: "nat \<Rightarrow> rat \<Rightarrow> string" where
  \<comment> \<open>\<open>f"{x:.<d>f}"\<close> for a finite \<open>x\<close>: the exact value rounded to \<open>d\<close> decimals, to
      nearest, ties to even; \<open>d\<close> is 2, 3 or 4 in the program\<close>
  "fixed_str d x =
     (let n = nat (round_even (\<bar>x\<bar> * 10 ^ d)) in
      (if x < 0 then ''-'' else '''') @
      show_nat (n div 10 ^ d) @ ''.'' @ zfill d (show_nat (n mod 10 ^ d)))"

fun py_fixed :: "nat \<Rightarrow> pyfloat \<Rightarrow> string" where
  "py_fixed d (Fin x) = fixed_str d x"
| "py_fixed d PInf = ''inf''"
| "py_fixed d NInf = ''-inf''"
| "py_fixed d NaN = ''nan''"

definition fmt3 :: "pyfloat \<Rightarrow> string" where
  "fmt3 x = (if fabs x = Fin 0 then ''0'' else py_fixed 3 x)"

definition fmt4 :: "pyfloat \<Rightarrow> string" where
  "fmt4 x = (if fabs x = Fin 0 then ''0'' else py_fixed 4 x)"



section \<open>Condition records\<close>

text \<open>
  The dictionaries that the reconstructor builds, as records: a species row of a
  solution phase, a phase, a pure solid and a condition (``page'').
\<close>

record row =
  row_name :: string
  row_g :: pyfloat
  row_W :: pyfloat
  row_n :: pyfloat
  row_X :: pyfloat
  row_a :: pyfloat

record phase =
  ph_name :: string
  ph_rows :: "row list"

record pure_solid =
  ps_name :: string
  ps_g :: pyfloat

record page =
  page_num :: int
  T_C :: pyfloat
  Fe_g :: "pyfloat option"
  phases :: "phase list"
  pure_solids :: "pure_solid list"

section \<open>Sorting\<close>

text \<open>
  Python's \<open>sorted\<close> and \<open>list.sort\<close> are stable and compare keys with \<open><\<close> only.
  \<open>sorted_stable lt xs\<close> is the stable sort of \<open>xs\<close> in which \<open>lt y x\<close> tells that \<open>y\<close>
  must come before \<open>x\<close>: an ascending sort takes \<open>key y < key x\<close> for it and a
  descending sort (\<open>reverse=True\<close>, which keeps equal keys in their original order)
  \<open>key x < key y\<close>. The keys that the program sorts by are never NaN.
\<close>

fun insert_stable :: "('a \<Rightarrow> 'a \<Rightarrow> bool) \<Rightarrow> 'a \<Rightarrow> 'a list \<Rightarrow> 'a list" where
  "insert_stable lt x [] = [x]"
| "insert_stable lt x (y # ys) = (if lt y x then y # insert_stable lt x ys else x # y # ys)"

definition sorted_stable :: "('a \<Rightarrow> 'a \<Rightarrow> bool) \<Rightarrow> 'a list \<Rightarrow> 'a list" where
  "sorted_stable lt xs = foldr (insert_stable lt) xs []"

definition sorted_asc :: "('a \<Rightarrow> pyfloat) \<Rightarrow> 'a list \<Rightarrow> 'a list" where
  \<comment> \<open>\<open>sorted(xs, key=key)\<close>\<close>
  "sorted_asc key xs = sorted_stable (\<lambda>y x. fless (key y) (key x)) xs"

definition sorted_desc :: "('a \<Rightarrow> pyfloat) \<Rightarrow> 'a list \<Rightarrow> 'a list" where
  \<comment> \<open>\<open>sorted(xs, key=key, reverse=True)\<close>\<close>
  "sorted_desc key xs = sorted_stable (\<lambda>y x. fless (key x) (key y)) xs"

definition sorted_set :: "string list \<Rightarrow> string list" where
  \<comment> \<open>\<open>sorted(set(xs))\<close>: the distinct strings in lexicographic order of their characters\<close>
  "sorted_set xs = sort (remdups xs)"

section \<open>Grouping conditions into simulation runs\<close>

definition fe_tol_default :: pyfloat where
  \<comment> \<open>the default \<open>fe_tol = 1e-3\<close>\<close>
  "fe_tol_default = lit (1 / 1000)"

definition reset_here :: "pyfloat \<Rightarrow> page list \<Rightarrow> pyfloat option \<Rightarrow> page \<Rightarrow> bool" where
  \<comment> \<open>the value of \<open>reset\<close> in the loop body\<close>
  "reset_here fe_tol cur last_fe p =
     ((page_num p = 1 \<and> cur \<noteq> []) \<or>
      (case last_fe of
         None \<Rightarrow> False
       | Some l \<Rightarrow>
           (case Fe_g p of
              None \<Rightarrow> False
            | Some m \<Rightarrow> fgreater (fabs (fsub m l)) fe_tol)))"

text \<open>The loop state: \<open>sims\<close>, \<open>cur\<close> and \<open>last_fe\<close>.\<close>

fun group_loop ::
  "pyfloat \<Rightarrow> page list list \<times> page list \<times> pyfloat option \<Rightarrow> page list \<Rightarrow>
   page list list \<times> page list \<times> pyfloat option" where
  "group_loop fe_tol st [] = st"
| "group_loop fe_tol (sims, cur, last_fe) (p # ps) =
     (let (sims1, cur1) =
            (if reset_here fe_tol cur last_fe p then (sims @ [cur], []) else (sims, cur));
          cur2 = cur1 @ [p];
          last_fe2 = (case Fe_g p of None \<Rightarrow> last_fe | Some m \<Rightarrow> Some m)
      in group_loop fe_tol (sims1, cur2, last_fe2) ps)"

definition group_simulations_tol :: "pyfloat \<Rightarrow> page list \<Rightarrow> page list list" where
  "group_simulations_tol fe_tol pages =
     (let (sims, cur, last_fe) = group_loop fe_tol ([], [], None) pages in
      if cur \<noteq> [] then sims @ [cur] else sims)"

definition group_simulations :: "page list \<Rightarrow> page list list" where
  \<comment> \<open>with the default tolerance, as every caller has it\<close>
  "group_simulations pages = group_simulations_tol fe_tol_default pages"

section \<open>Analysis of one simulation run\<close>

text \<open>
  A composition is the dictionary \<open>{name: (W, a, g)}\<close> built from the rows of a phase.
  It is kept as an association list in insertion order; a later row with the same
  name replaces the value and keeps the place of the first, as a Python dictionary
  does.
\<close>

type_synonym comp = "(string \<times> (pyfloat \<times> pyfloat \<times> pyfloat)) list"

definition comp_of_rows :: "row list \<Rightarrow> comp" where
  "comp_of_rows rows =
     foldl (\<lambda>m r. AList.update (row_name r) (row_W r, row_a r, row_g r) m) [] rows"

record snapshot =
  snap_T :: pyfloat
  snap_comp :: comp
  snap_Si_w :: pyfloat

text \<open>The local variables of the scan, and the dictionary that the analysis returns.\<close>

record scan_state =
  st_collected :: "snapshot list"
  st_stop_T :: "pyfloat option"
  st_stop_phases :: "string list"
  st_prev_slag_comp :: "comp option"
  st_slag_first_T :: "pyfloat option"
  st_slag_first_phases :: "string list"
  st_slag_comp_before :: "comp option"

record analysis =
  res_Fe_g :: "pyfloat option"
  best_T :: "pyfloat option"
  best_Si :: "pyfloat option"
  best_comp :: comp
  stop_T :: "pyfloat option"
  stop_phases :: "string list"
  slag_first_T :: "pyfloat option"
  slag_first_phases :: "string list"
  slag_comp_before :: comp

definition slag_phases_here :: "pyfloat \<Rightarrow> page \<Rightarrow> string list" where
  "slag_phases_here g_threshold pg =
     map ph_name (filter (\<lambda>ph. ph_rows ph \<noteq> [] \<and> is_slag_solid_phase (ph_name ph)) (phases pg)) @
     map ps_name (filter (\<lambda>ps. fge (ps_g ps) g_threshold \<and> is_slag_puresolid (ps_name ps))
                    (pure_solids pg))"

definition metal_phases_here :: "pyfloat \<Rightarrow> page \<Rightarrow> string list" where
  "metal_phases_here g_threshold pg =
     map ph_name
       (filter (\<lambda>ph. ph_rows ph \<noteq> [] \<and> is_metal_intermetallic_phase (ph_name ph)) (phases pg)) @
     map ps_name
       (filter (\<lambda>ps. fge (ps_g ps) g_threshold \<and> is_metal_intermetallic_puresolid (ps_name ps))
          (pure_solids pg))"

definition find_liq :: "page \<Rightarrow> phase option" where
  \<comment> \<open>the first phase, in listed order, that is a metallic liquid with rows\<close>
  "find_liq pg = find (\<lambda>ph. is_metal_liquid_phase (ph_name ph) \<and> ph_rows ph \<noteq> []) (phases pg)"

definition find_slag_liq :: "page \<Rightarrow> phase option" where
  "find_slag_liq pg = find (\<lambda>ph. is_slag_liquid_phase (ph_name ph) \<and> ph_rows ph \<noteq> []) (phases pg)"

definition slag_step :: "pyfloat \<Rightarrow> scan_state \<Rightarrow> page \<Rightarrow> scan_state" where
  \<comment> \<open>the first appearance of slag solids\<close>
  "slag_step g_threshold st pg =
     (if st_slag_first_T st = None then
        (let here = slag_phases_here g_threshold pg in
         if here \<noteq> [] then
           st\<lparr>st_slag_first_T := Some (T_C pg),
              st_slag_first_phases := sorted_set here,
              st_slag_comp_before := st_prev_slag_comp st\<rparr>
         else st)
      else st)"

definition liquid_step :: "scan_state \<Rightarrow> page \<Rightarrow> scan_state" where
  \<comment> \<open>the rest of the loop body, reached when the scan does not stop at this condition\<close>
  "liquid_step st pg =
     (let st1 =
            (case find_liq pg of
               None \<Rightarrow> st
             | Some liq \<Rightarrow>
                 (let comp = comp_of_rows (ph_rows liq);
                      si_w = (case map_of comp ''Si'' of
                                None \<Rightarrow> Fin 0
                              | Some (w, a, g) \<Rightarrow> w)
                  in st\<lparr>st_collected :=
                          st_collected st @ [\<lparr>snap_T = T_C pg, snap_comp = comp, snap_Si_w = si_w\<rparr>]\<rparr>))
      in (case find_slag_liq pg of
            None \<Rightarrow> st1
          | Some slag_liq \<Rightarrow> st1\<lparr>st_prev_slag_comp := Some (comp_of_rows (ph_rows slag_liq))\<rparr>))"

fun scan :: "pyfloat \<Rightarrow> scan_state \<Rightarrow> page list \<Rightarrow> scan_state" where
  \<comment> \<open>the loop over the sorted conditions; the second branch is the \<open>break\<close>\<close>
  "scan g_threshold st [] = st"
| "scan g_threshold st (pg # pgs) =
     (let st1 = slag_step g_threshold st pg;
          metal = metal_phases_here g_threshold pg
      in if metal \<noteq> [] \<and> st_stop_T st1 = None then
           st1\<lparr>st_stop_T := Some (T_C pg), st_stop_phases := sorted_set metal\<rparr>
         else scan g_threshold (liquid_step st1 pg) pgs)"

definition init_state :: scan_state where
  "init_state =
     \<lparr>st_collected = [], st_stop_T = None, st_stop_phases = [], st_prev_slag_comp = None,
      st_slag_first_T = None, st_slag_first_phases = [], st_slag_comp_before = None\<rparr>"

fun max_by :: "('a \<Rightarrow> pyfloat) \<Rightarrow> 'a \<Rightarrow> 'a list \<Rightarrow> 'a" where
  \<comment> \<open>\<open>max(xs, key=key)\<close> on a non-empty list: a later element replaces the best one only
      when its key is greater, so the first of the greatest stays\<close>
  "max_by key best [] = best"
| "max_by key best (x # xs) = max_by key (if fless (key best) (key x) then x else best) xs"

definition analyze_simulation_thr :: "pyfloat \<Rightarrow> page list \<Rightarrow> analysis" where
  "analyze_simulation_thr g_threshold sim_pages0 =
     (let sim_pages = sorted_desc T_C sim_pages0;
          fe_g = (case sim_pages of [] \<Rightarrow> None | p # _ \<Rightarrow> Fe_g p);
          st = scan g_threshold init_state sim_pages;
          before = (case st_slag_comp_before st of None \<Rightarrow> [] | Some c \<Rightarrow> c)
      in (case st_collected st of
            [] \<Rightarrow>
              \<lparr>res_Fe_g = fe_g, best_T = None, best_Si = None, best_comp = [],
               stop_T = st_stop_T st, stop_phases = st_stop_phases st,
               slag_first_T = st_slag_first_T st, slag_first_phases = st_slag_first_phases st,
               slag_comp_before = before\<rparr>
          | c # cs \<Rightarrow>
              (let best = max_by snap_Si_w c cs in
               \<lparr>res_Fe_g = fe_g, best_T = Some (snap_T best), best_Si = Some (snap_Si_w best),
                best_comp = snap_comp best,
                stop_T = st_stop_T st, stop_phases = st_stop_phases st,
                slag_first_T = st_slag_first_T st, slag_first_phases = st_slag_first_phases st,
                slag_comp_before = before\<rparr>)))"

definition analyze_simulation :: "page list \<Rightarrow> analysis" where
  \<comment> \<open>with the default \<open>g_threshold = G_MIN\<close>, as every caller has it\<close>
  "analyze_simulation sim_pages = analyze_simulation_thr G_MIN sim_pages"

section \<open>Ranking the runs\<close>

definition valid_run :: "analysis \<Rightarrow> bool" where
  \<comment> \<open>\<open>r["best_Si"] is not None and r["best_comp"]\<close>\<close>
  "valid_run r = (best_Si r \<noteq> None \<and> best_comp r \<noteq> [])"

definition rank_key :: "analysis \<Rightarrow> pyfloat" where
  \<comment> \<open>\<open>-(r["best_Si"])\<close>; the runs that are sorted have passed \<open>valid_run\<close>, so the
      first case is not reached\<close>
  "rank_key r = (case best_Si r of None \<Rightarrow> NaN | Some s \<Rightarrow> fneg s)"

definition rank_results :: "nat \<Rightarrow> analysis list \<Rightarrow> analysis list" where
  \<comment> \<open>the last three statements of \<open>run_liquid_analysis\<close>\<close>
  "rank_results top_k results = take top_k (sorted_asc rank_key (filter valid_run results))"

definition run_liquid_analysis_pages :: "nat \<Rightarrow> page list \<Rightarrow> analysis list" where
  \<comment> \<open>\<open>run_liquid_analysis\<close> from the reconstructed conditions on\<close>
  "run_liquid_analysis_pages top_k pages =
     rank_results top_k (map analyze_simulation (group_simulations pages))"

section \<open>The report\<close>

fun join :: "string \<Rightarrow> string list \<Rightarrow> string" where
  \<comment> \<open>\<open>sep.join(xs)\<close>\<close>
  "join sep [] = []"
| "join sep [x] = x"
| "join sep (x # y # ys) = x @ sep @ join sep (y # ys)"

definition format_comp :: "comp \<Rightarrow> string" where
  \<comment> \<open>every value of a composition is a triple, so only that branch of the source
      applies\<close>
  "format_comp comp_dict =
     join ''  |  ''
       (map (\<lambda>(name, (W, a, g)). name @ '':  '' @ fmt3 W @ ''  (a='' @ fmt4 a @ '')  '')
          (sorted_desc (\<lambda>(name, (W, a, g)). W) comp_dict))"

definition comp_total_mass :: "comp \<Rightarrow> pyfloat" where
  "comp_total_mass comp_dict = foldl (\<lambda>total (name, (W, a, g)). fadd total g) (Fin 0) comp_dict"

definition comp_text_with_total :: "comp \<Rightarrow> string" where
  "comp_text_with_total comp_dict =
     format_comp comp_dict @ ''  |  TOTAL: '' @ fmt3 (comp_total_mass comp_dict) @ '' g''"

definition not_found :: string where
  "not_found = ''not found''"

definition report_row :: "nat \<Rightarrow> analysis \<Rightarrow> string list" where
  \<comment> \<open>the cells of one row handed to the CSV writer, \<open>idx\<close> being the rank\<close>
  "report_row idx r =
     [show_nat idx,
      (case res_Fe_g r of None \<Rightarrow> not_found | Some x \<Rightarrow> fmt3 x),
      (case best_T r of None \<Rightarrow> not_found | Some x \<Rightarrow> py_fixed 2 x),
      (case best_Si r of None \<Rightarrow> not_found | Some x \<Rightarrow> fmt3 x),
      (if best_comp r \<noteq> [] then comp_text_with_total (best_comp r) else not_found),
      (case stop_T r of None \<Rightarrow> not_found | Some x \<Rightarrow> py_fixed 2 x),
      (if stop_phases r \<noteq> [] then join '', '' (stop_phases r) else not_found),
      (case slag_first_T r of None \<Rightarrow> not_found | Some x \<Rightarrow> py_fixed 2 x),
      (if slag_first_phases r \<noteq> [] then join '', '' (slag_first_phases r) else not_found),
      (if slag_comp_before r \<noteq> [] then comp_text_with_total (slag_comp_before r)
       else not_found)]"

fun report_rows_from :: "nat \<Rightarrow> analysis list \<Rightarrow> string list list" where
  \<comment> \<open>\<open>for idx, r in enumerate(hits, 1)\<close>\<close>
  "report_rows_from idx [] = []"
| "report_rows_from idx (r # rs) = report_row idx r # report_rows_from (Suc idx) rs"

definition report_rows :: "analysis list \<Rightarrow> string list list" where
  "report_rows hits = report_rows_from 1 hits"

section \<open>The source document\<close>













section \<open>The canonicalizer\<close>

subsection \<open>Formula display\<close>




subsection \<open>Temperature from the description\<close>





subsection \<open>The header tables\<close>





subsection \<open>One block per condition\<close>

















subsection \<open>The text file\<close>






section \<open>The reconstructor\<close>

subsection \<open>Line patterns\<close>













subsection \<open>The line loops\<close>













section \<open>Notions used to state the properties\<close>

text \<open>
  The definitions of this section are not part of the program: they name what the
  properties speak about, and the example data on which they are evaluated.
\<close>

definition last_fe_of :: "page list \<Rightarrow> pyfloat option" where
  \<comment> \<open>the tracked reactant mass of the last condition that reports one\<close>
  "last_fe_of ps = foldl (\<lambda>l p. case Fe_g p of None \<Rightarrow> l | Some m \<Rightarrow> Some m) None ps"

definition new_run :: "pyfloat \<Rightarrow> page list \<Rightarrow> page \<Rightarrow> bool" where
  \<comment> \<open>after the conditions \<open>xs\<close>, the condition \<open>p\<close> has page number 1, or it reports a
      mass that differs by more than the tolerance from the last reported one\<close>
  "new_run fe_tol xs p =
     (page_num p = 1 \<or>
      (case last_fe_of xs of
         None \<Rightarrow> False
       | Some l \<Rightarrow>
           (case Fe_g p of
              None \<Rightarrow> False
            | Some m \<Rightarrow> fgreater (fabs (fsub m l)) fe_tol)))"

definition mass_page :: "rat \<Rightarrow> int \<Rightarrow> page" where
  \<comment> \<open>a condition with the given reactant mass and page number, and nothing else\<close>
  "mass_page m n = \<lparr>page_num = n, T_C = Fin 0, Fe_g = Some (Fin m), phases = [], pure_solids = []\<rparr>"

definition slag_first_page :: page where
  "slag_first_page =
     \<lparr>page_num = 1, T_C = Fin 1600, Fe_g = None,
      phases =
        [\<lparr>ph_name = ''Slag-liquid'',
          ph_rows = [\<lparr>row_name = ''SiO2'', row_g = Fin 60, row_W = Fin 100, row_n = Fin 1,
                      row_X = Fin 1, row_a = Fin 1\<rparr>]\<rparr>,
         \<lparr>ph_name = ''Fe-liq'',
          ph_rows = [\<lparr>row_name = ''Fe'', row_g = Fin 56, row_W = Fin 100, row_n = Fin 1,
                      row_X = Fin 1, row_a = Fin 1\<rparr>]\<rparr>],
      pure_solids = []\<rparr>"





definition run_with_Si :: "rat \<Rightarrow> analysis" where
  \<comment> \<open>the analysis of a run whose best liquid has the given silicon value\<close>
  "run_with_Si s =
     \<lparr>res_Fe_g = None, best_T = Some (Fin 1600), best_Si = Some (lit s),
      best_comp = [(''Si'', lit s, Fin 1, Fin 1)],
      stop_T = None, stop_phases = [], slag_first_T = None, slag_first_phases = [],
      slag_comp_before = []\<rparr>"






section \<open>Properties\<close>

subsection \<open>Evaluation rules\<close>

lemma round_even_of_int_div:
  fixes p q :: int
  assumes "0 < q"
  shows "round_even (of_int p / of_int q) =
    (if 2 * (p mod q) < q then p div q
     else if q < 2 * (p mod q) then p div q + 1
     else if even (p div q) then p div q else p div q + 1)"
proof -
  have f: "\<lfloor>(of_int p / of_int q :: rat)\<rfloor> = p div q"
    by (rule floor_divide_of_int_eq)
  have "(of_int p :: rat) = of_int (p div q) * of_int q + of_int (p mod q)"
    by (metis div_mult_mod_eq of_int_add of_int_mult)
  then have d: "(of_int p / of_int q :: rat) - of_int (p div q) = of_int (p mod q) / of_int q"
    using assms by (simp add: field_simps)
  have lt: "(of_int (p mod q) / of_int q :: rat) < 1 / 2 \<longleftrightarrow> 2 * (p mod q) < q"
  proof -
    have "(of_int (p mod q) / of_int q :: rat) < 1 / 2 \<longleftrightarrow>
          (of_int (2 * (p mod q)) :: rat) < of_int q"
      using assms by (simp add: field_simps)
    then show ?thesis by (simp only: of_int_less_iff)
  qed
  have gt: "1 / 2 < (of_int (p mod q) / of_int q :: rat) \<longleftrightarrow> q < 2 * (p mod q)"
  proof -
    have "1 / 2 < (of_int (p mod q) / of_int q :: rat) \<longleftrightarrow>
          (of_int q :: rat) < of_int (2 * (p mod q))"
      using assms by (simp add: field_simps)
    then show ?thesis by (simp only: of_int_less_iff)
  qed
  show ?thesis
    unfolding round_even_def Let_def f d lt gt by simp
qed

lemma round_even_numeral_div [simp]:
  "round_even (numeral a / numeral b) =
    (if 2 * ((numeral a :: int) mod numeral b) < numeral b then numeral a div numeral b
     else if numeral b < 2 * ((numeral a :: int) mod numeral b) then numeral a div numeral b + 1
     else if even ((numeral a :: int) div numeral b) then numeral a div numeral b
     else numeral a div numeral b + 1)"
  using round_even_of_int_div [of "numeral b" "numeral a"] by simp

lemma round_even_one_div [simp]:
  "round_even (1 / numeral b) =
    (if 2 * ((1 :: int) mod numeral b) < numeral b then 1 div numeral b
     else if numeral b < 2 * ((1 :: int) mod numeral b) then 1 div numeral b + 1
     else if even ((1 :: int) div numeral b) then 1 div numeral b
     else 1 div numeral b + 1)"
  using round_even_of_int_div [of "numeral b" 1] by simp

lemma round_even_int [simp]:
  "round_even 0 = 0" "round_even 1 = 1" "round_even (numeral a) = numeral a"
  by (simp_all add: round_even_def)

lemma floor_numeral_div [simp]:
  "\<lfloor>numeral a / numeral b :: rat\<rfloor> = numeral a div numeral b"
  using floor_divide_of_int_eq [of "numeral a" "numeral b", where ?'a = rat] by simp

lemma floor_one_div [simp]:
  "\<lfloor>1 / numeral b :: rat\<rfloor> = 1 div numeral b"
  using floor_divide_of_int_eq [of 1 "numeral b", where ?'a = rat] by simp

lemma ceiling_numeral_div [simp]:
  "\<lceil>numeral a / numeral b :: rat\<rceil> = - (- numeral a div numeral b)"
  using ceiling_divide_eq_div [of "numeral a" "numeral b", where ?'a = rat] by simp

lemma bitlen_nat_0 [simp]: "bitlen_nat 0 = 0"
  by (simp add: bitlen_nat.simps)

lemma bitlen_nat_1 [simp]: "bitlen_nat (Suc 0) = Suc 0" "bitlen_nat 1 = 1"
  by (simp_all add: bitlen_nat.simps)

lemma bitlen_nat_numeral [simp]:
  "bitlen_nat (numeral n) = bitlen_nat (numeral n div 2) + 1"
  by (subst bitlen_nat.simps) simp

lemmas char_class_defs =
  is_upper_def is_lower_def is_digit_def is_alpha_def is_word_def is_space_def
  is_float_space_def lower_char_def lower_def

lemmas float_eval = to_double_def ilog2_def pow2_def pow10_def Let_def


lemmas parse_eval =
  fnum_def py_float_def parse_number_def parse_exponent_def take_sign_def strip_def
  float_strip_def digit_val_def char_class_defs

subsection \<open>Label clean-up\<close>

lemma dropWhile_alpha_hyphen:
  "list_all is_alpha ls \<Longrightarrow> dropWhile is_alpha (ls @ CHR ''-'' # rest) = CHR ''-'' # rest"
  by (induction ls) (simp_all add: char_class_defs)

lemma takeWhile_alpha_hyphen:
  "list_all is_alpha ls \<Longrightarrow> takeWhile is_alpha (ls @ CHR ''-'' # rest) = ls"
  by (induction ls) (simp_all add: char_class_defs)

lemma clean_phase_state_strip:
  assumes "ls \<noteq> []" and "list_all is_alpha ls"
  shows "clean_phase_state (''FT'' @ ls @ CHR ''-'' # rest) = rest"
  using assms
  by (simp add: clean_phase_state_def dropWhile_alpha_hyphen takeWhile_alpha_hyphen)

lemma clean_phase_state_changes:
  assumes "clean_phase_state s \<noteq> s"
  shows "\<exists>ls rest. ls \<noteq> [] \<and> list_all is_alpha ls \<and> s = ''FT'' @ ls @ CHR ''-'' # rest"
proof -
  from assms obtain r where s: "s = CHR ''F'' # CHR ''T'' # r"
    by (auto simp: clean_phase_state_def split: list.splits if_splits)
  from assms s obtain rest where d: "dropWhile is_alpha r = CHR ''-'' # rest"
    and t: "takeWhile is_alpha r \<noteq> []"
    by (auto simp: clean_phase_state_def split: list.splits if_splits)
  have "r = takeWhile is_alpha r @ dropWhile is_alpha r" by simp
  with d have "r = takeWhile is_alpha r @ CHR ''-'' # rest" by simp
  moreover have "list_all is_alpha (takeWhile is_alpha r)"
    by (simp add: list_all_iff) (meson set_takeWhileD)
  ultimately show ?thesis using s t by (metis append_Cons append_Nil)
qed

text \<open>
  C8, as the code has it: the label cleaner removes a leading prefix made of the
  letters \<open>FT\<close>, one or more ASCII letters of either case and a hyphen, and a label
  that does not start with such a prefix is returned unchanged.
\<close>

theorem clean_phase_state_prefix:
  "(ls \<noteq> [] \<and> list_all is_alpha ls \<longrightarrow>
      clean_phase_state (''FT'' @ ls @ CHR ''-'' # rest) = rest) \<and>
   ((\<forall>ls rest. \<not> (ls \<noteq> [] \<and> list_all is_alpha ls \<and> s = ''FT'' @ ls @ CHR ''-'' # rest)) \<longrightarrow>
      clean_phase_state s = s)"
  using clean_phase_state_strip clean_phase_state_changes by blast

theorem clean_phase_state_prefix_witness:
  "clean_phase_state ''FTmisc-FeLQ'' = ''FeLQ'' \<and> clean_phase_state ''Slag-liq'' = ''Slag-liq''"
proof -
  have a: "''misc'' \<noteq> [] \<and> list_all is_alpha ''misc''"
    by (simp add: char_class_defs)
  have b: "\<forall>ls rest. \<not> (ls \<noteq> [] \<and> list_all is_alpha ls \<and> ''Slag-liq'' = ''FT'' @ ls @ CHR ''-'' # rest)"
    by simp
  from clean_phase_state_prefix [of "''misc''" "''FeLQ''" "''Slag-liq''"] a b
  show ?thesis by simp
qed

text \<open>
  The claim C8 as the specification words it (two uppercase letters, lowercase
  letters, a hyphen) fails both ways: \<open>ABcd-Fe\<close> starts with such a prefix and is
  returned unchanged, and \<open>FTMISC-Fe\<close> does not start with one and loses \<open>FTMISC-\<close>.
\<close>

theorem clean_phase_state_spec_prefix_counterexample:
  "spec_prefix_split ''ABcd-Fe'' = Some ''Fe'' \<and> clean_phase_state ''ABcd-Fe'' = ''ABcd-Fe'' \<and>
   spec_prefix_split ''FTMISC-Fe'' = None \<and> clean_phase_state ''FTMISC-Fe'' = ''Fe''"
  by (simp add: spec_prefix_split_def clean_phase_state_def char_class_defs)

subsection \<open>Phase classification\<close>

text \<open>
  C4, as the code has it: \<open>FeSi2(s)\<close> is a metal-intermetallic pure solid and
  \<open>Slag-liq\<close> is a slag liquid and not a metal liquid; \<open>bcc_A2\<close> is not a
  metal-intermetallic solution phase, since the underscore is a word character and
  \<open>bcc\<close> is therefore not a whole word in it, while \<open>bcc\<close> alone and \<open>bcc-A2\<close> are.
\<close>

theorem classifier_examples:
  "is_metal_intermetallic_puresolid ''FeSi2(s)'' \<and>
   is_slag_liquid_phase ''Slag-liq'' \<and> \<not> is_metal_liquid_phase ''Slag-liq'' \<and>
   \<not> is_metal_intermetallic_phase ''bcc_A2'' \<and>
   is_metal_intermetallic_phase ''bcc'' \<and> is_metal_intermetallic_phase ''bcc-A2''"
  by (simp add: is_metal_intermetallic_puresolid_def is_slag_liquid_phase_def
      is_metal_liquid_phase_def is_metal_intermetallic_phase_def tag_here_def char_class_defs)

text \<open>
  The claim C4 says that \<open>bcc_A2\<close> is classified as a metal-intermetallic solution
  phase; the classifier rejects it.
\<close>

theorem classifier_bcc_A2_counterexample:
  "is_metal_intermetallic_phase ''bcc_A2'' = False"
  by (simp add: is_metal_intermetallic_phase_def tag_here_def char_class_defs)

subsection \<open>Number parsing\<close>

lemma is_finite_simps [simp]:
  "is_finite (Fin r)" "\<not> is_finite PInf" "\<not> is_finite NInf" "\<not> is_finite NaN"
  by (simp_all add: is_finite_def)

text \<open>
  C5, as the code has it: \<open>fnum\<close> is a total function (no input raises); a missing
  value, the empty string and every string that \<open>float\<close> rejects yield \<open>0.0\<close>, and
  \<open>1.5D+02\<close> yields \<open>150.0\<close>. The result is finite except in two cases, which are
  passed on from \<open>float\<close>: the trimmed text is, after an optional sign, one of \<open>inf\<close>,
  \<open>infinity\<close> and \<open>nan\<close> in any letter case, or it is a decimal numeral so large that it
  rounds to an infinity. The text is trimmed of all white space, also of the no-break
  space and of the separators \<open>1C\<close> to \<open>1F\<close>.
\<close>

theorem fnum_total:
  "fnum None = Fin 0 \<and> fnum (Some '''') = Fin 0 \<and>
   (py_float (replace_all ''D'' ''E'' (strip t)) = None \<longrightarrow> fnum (Some t) = Fin 0) \<and>
   fnum (Some ''1.5D+02'') = Fin 150 \<and>
   fnum (Some (CHR 0xA0 # ''1.5'' @ [CHR 0x1C])) = Fin (3 / 2) \<and>
   (\<not> is_finite (fnum (Some t)) \<longleftrightarrow>
      (let s = replace_all ''D'' ''E'' (strip t);
           l = lower (snd (take_sign (float_strip s)));
           neg = fst (take_sign (float_strip s)) in
       s \<noteq> [] \<and>
       (l = ''inf'' \<or> l = ''infinity'' \<or> l = ''nan'' \<or>
        (\<exists>r. parse_number (snd (take_sign (float_strip s))) = Some r \<and>
             \<not> is_finite (to_double (if neg then - r else r))))))"
proof -
  have 1: "fnum None = Fin 0" by (simp add: fnum_def)
  have 2: "fnum (Some '''') = Fin 0" by (simp add: fnum_def strip_def)
  have 3: "py_float (replace_all ''D'' ''E'' (strip t)) = None \<longrightarrow> fnum (Some t) = Fin 0"
    by (simp add: fnum_def Let_def)
  have 4: "fnum (Some ''1.5D+02'') = Fin 150"
    by (simp add: parse_eval float_eval)
  have 5: "fnum (Some (CHR 0xA0 # ''1.5'' @ [CHR 0x1C])) = Fin (3 / 2)"
    by (simp add: parse_eval float_eval)
  have 6: "\<not> is_finite (fnum (Some t)) \<longleftrightarrow>
      (let s = replace_all ''D'' ''E'' (strip t);
           l = lower (snd (take_sign (float_strip s)));
           neg = fst (take_sign (float_strip s)) in
       s \<noteq> [] \<and>
       (l = ''inf'' \<or> l = ''infinity'' \<or> l = ''nan'' \<or>
        (\<exists>r. parse_number (snd (take_sign (float_strip s))) = Some r \<and>
             \<not> is_finite (to_double (if neg then - r else r)))))"
    by (auto simp: fnum_def py_float_def Let_def split_beta split: option.splits)
  from 1 2 3 4 5 6 show ?thesis by blast
qed

theorem fnum_total_witness:
  "fnum (Some ''abc'') = Fin 0 \<and> \<not> is_finite (fnum (Some '' -Infinity ''))"
proof -
  have a: "py_float (replace_all ''D'' ''E'' (strip ''abc'')) = None"
    by (simp add: parse_eval)
  have b: "fnum (Some '' -Infinity '') = NInf"
    by (simp add: parse_eval)
  from fnum_total [of "''abc''"] a have "fnum (Some ''abc'') = Fin 0" by blast
  with b show ?thesis by simp
qed

text \<open>
  The claim C5 says that the result is always a finite number; the text \<open>inf\<close> is
  read as the positive infinity.
\<close>

theorem fnum_inf_counterexample:
  "fnum (Some ''inf'') = PInf \<and> is_finite (fnum (Some ''inf'')) = False"
  by (simp add: parse_eval)

subsection \<open>Overlap of the liquid classes\<close>

lemmas classifier_defs =
  is_metal_liquid_phase_def is_slag_liquid_phase_def is_metal_intermetallic_phase_def
  is_metal_intermetallic_puresolid_def is_slag_solid_phase_def is_slag_puresolid_def tag_here_def

lemmas analysis_defs =
  analyze_simulation_def analyze_simulation_thr_def sorted_desc_def sorted_asc_def
  sorted_stable_def init_state_def slag_step_def liquid_step_def slag_phases_here_def
  metal_phases_here_def find_liq_def find_slag_liq_def comp_of_rows_def sorted_set_def
  fge_def fgreater_def G_MIN_def lit_def

text \<open>
  C10: a label that contains both \<open>slag\<close> and \<open>liquid\<close>, in any letter case, is a
  metallic liquid and a slag liquid at once. The candidate search takes the first
  phase in listed order that is a metallic liquid with rows, so such a phase listed
  first is the one taken; on a condition that lists \<open>Slag-liquid\<close> before \<open>Fe-liq\<close> the
  analysis reports the slag composition as the best metallic liquid.
\<close>

theorem slag_liquid_is_metal_liquid:
  "(contains ''slag'' (lower name) \<and> contains ''liquid'' (lower name) \<longrightarrow>
      is_metal_liquid_phase name \<and> is_slag_liquid_phase name) \<and>
   (contains ''slag'' (lower (ph_name ph)) \<and> contains ''liquid'' (lower (ph_name ph)) \<and>
    ph_rows ph \<noteq> [] \<longrightarrow>
      find_liq (pg\<lparr>phases := ph # phs\<rparr>) = Some ph) \<and>
   best_comp (analyze_simulation [slag_first_page]) = [(''SiO2'', Fin 100, Fin 1, Fin 60)]"
proof -
  have "best_comp (analyze_simulation [slag_first_page]) = [(''SiO2'', Fin 100, Fin 1, Fin 60)]"
    by (simp add: slag_first_page_def analysis_defs classifier_defs char_class_defs)
  then show ?thesis
    by (simp add: is_metal_liquid_phase_def is_slag_liquid_phase_def find_liq_def)
qed

theorem slag_liquid_is_metal_liquid_witness:
  "is_metal_liquid_phase ''Slag-liquid'' \<and> is_slag_liquid_phase ''Slag-liquid'' \<and>
   find_liq slag_first_page = Some (hd (phases slag_first_page))"
proof -
  have a: "contains ''slag'' (lower ''Slag-liquid'') \<and> contains ''liquid'' (lower ''Slag-liquid'')"
    by (simp add: char_class_defs)
  have b: "ph_name (hd (phases slag_first_page)) = ''Slag-liquid'' \<and>
           ph_rows (hd (phases slag_first_page)) \<noteq> []"
    by (simp add: slag_first_page_def)
  have c: "slag_first_page\<lparr>phases := hd (phases slag_first_page) # tl (phases slag_first_page)\<rparr>
           = slag_first_page"
    by (simp add: slag_first_page_def)
  from slag_liquid_is_metal_liquid
    [where name = "''Slag-liquid''" and ph = "hd (phases slag_first_page)"
       and pg = slag_first_page and phs = "tl (phases slag_first_page)"] a b c
  show ?thesis by simp
qed

subsection \<open>Run grouping\<close>

lemma group_loop_append:
  "group_loop tol st (xs @ ys) = group_loop tol (group_loop tol st xs) ys"
proof (induction xs arbitrary: st)
  case Nil
  show ?case by simp
next
  case (Cons p xs)
  obtain sims cur l where st: "st = (sims, cur, l)" by (cases st)
  show ?case unfolding st by (simp add: Cons.IH Let_def split: prod.splits)
qed

lemma group_loop_snoc:
  "group_loop tol ([], [], None) (xs @ [p]) =
     (case group_loop tol ([], [], None) xs of
        (sims, cur, l) \<Rightarrow>
          ((if reset_here tol cur l p then sims @ [cur] else sims),
           (if reset_here tol cur l p then [p] else cur @ [p]),
           (case Fe_g p of None \<Rightarrow> l | Some m \<Rightarrow> Some m)))"
  by (simp add: group_loop_append Let_def split: prod.splits)

lemma group_loop_state:
  "group_loop tol ([], [], None) xs = (sims, cur, l) \<Longrightarrow>
     l = last_fe_of xs \<and> (cur = [] \<longleftrightarrow> xs = [])"
proof (induction xs arbitrary: sims cur l rule: rev_induct)
  case Nil
  then show ?case by (simp add: last_fe_of_def)
next
  case (snoc p xs)
  obtain s0 c0 l0 where st: "group_loop tol ([], [], None) xs = (s0, c0, l0)"
    by (cases "group_loop tol ([], [], None) xs")
  from snoc.IH [OF st] have l0: "l0 = last_fe_of xs" by simp
  from snoc.prems st l0 show ?case
    by (auto simp: group_loop_snoc last_fe_of_def split: if_splits)
qed

lemma group_simulations_snoc:
  assumes "xs \<noteq> []"
  shows "group_simulations_tol tol (xs @ [p]) =
     (if new_run tol xs p then group_simulations_tol tol xs @ [[p]]
      else butlast (group_simulations_tol tol xs) @ [last (group_simulations_tol tol xs) @ [p]])"
proof -
  obtain sims cur l where st: "group_loop tol ([], [], None) xs = (sims, cur, l)"
    by (cases "group_loop tol ([], [], None) xs")
  from group_loop_state [OF st] assms have l: "l = last_fe_of xs" and cur: "cur \<noteq> []"
    by simp_all
  have r: "reset_here tol cur l p = new_run tol xs p"
    using cur by (simp add: reset_here_def new_run_def l)
  have g: "group_simulations_tol tol xs = sims @ [cur]"
    using st cur by (simp add: group_simulations_tol_def)
  show ?thesis
    by (simp add: group_simulations_tol_def [of tol "xs @ [p]"] group_loop_snoc st r g)
qed

lemmas group_eval =
  group_simulations_def group_simulations_tol_def reset_here_def fe_tol_default_def lit_def
  fsub_def fgreater_def mass_page_def

text \<open>
  C6: no run is started for an empty sequence, and the first condition starts the
  first run. Every later condition \<open>p\<close>, coming after the conditions \<open>xs\<close>, starts a new
  run exactly when its page number is 1 (the current run is then never empty) or when
  it reports a tracked mass that differs by more than the tolerance from the mass of
  the last condition of \<open>xs\<close> that reports one; otherwise it joins the last run. A
  condition that reports no mass and whose page number is not 1 therefore never starts
  a run. With the default tolerance \<open>1e-3\<close>, the masses 10, 10, 10, 20, 20 with the page
  numbers 1, 2, 3, 1, 2 give two runs, of 3 and of 2 conditions.
\<close>

theorem group_simulations_runs:
  "group_simulations_tol tol [] = [] \<and>
   group_simulations_tol tol [p] = [[p]] \<and>
   (xs \<noteq> [] \<longrightarrow>
      group_simulations_tol tol (xs @ [p]) =
        (if new_run tol xs p then group_simulations_tol tol xs @ [[p]]
         else butlast (group_simulations_tol tol xs) @
              [last (group_simulations_tol tol xs) @ [p]])) \<and>
   (Fe_g p = None \<and> page_num p \<noteq> 1 \<longrightarrow> \<not> new_run tol xs p) \<and>
   group_simulations
     [mass_page 10 1, mass_page 10 2, mass_page 10 3, mass_page 20 1, mass_page 20 2] =
     [[mass_page 10 1, mass_page 10 2, mass_page 10 3], [mass_page 20 1, mass_page 20 2]]"
proof -
  have 1: "group_simulations_tol tol [] = []"
    by (simp add: group_simulations_tol_def)
  have 2: "group_simulations_tol tol [p] = [[p]]"
    by (simp add: group_simulations_tol_def reset_here_def Let_def)
  have 3: "Fe_g p = None \<and> page_num p \<noteq> 1 \<longrightarrow> \<not> new_run tol xs p"
    by (simp add: new_run_def split: option.splits)
  have 4: "group_simulations
     [mass_page 10 1, mass_page 10 2, mass_page 10 3, mass_page 20 1, mass_page 20 2] =
     [[mass_page 10 1, mass_page 10 2, mass_page 10 3], [mass_page 20 1, mass_page 20 2]]"
    by (simp add: group_eval float_eval)
  from 1 2 3 4 group_simulations_snoc [of xs tol p] show ?thesis by blast
qed

theorem group_simulations_runs_witness:
  "group_simulations_tol fe_tol_default [mass_page 10 1, mass_page 10 2] =
     [[mass_page 10 1, mass_page 10 2]] \<and>
   group_simulations_tol fe_tol_default [mass_page 10 1, mass_page 20 2] =
     [[mass_page 10 1], [mass_page 20 2]] \<and>
   \<not> new_run fe_tol_default [mass_page 10 1]
       \<lparr>page_num = 2, T_C = Fin 0, Fe_g = None, phases = [], pure_solids = []\<rparr>"
proof -
  have a: "\<not> new_run fe_tol_default [mass_page 10 1] (mass_page 10 2)"
    by (simp add: new_run_def last_fe_of_def group_eval float_eval)
  have b: "new_run fe_tol_default [mass_page 10 1] (mass_page 20 2)"
    by (simp add: new_run_def last_fe_of_def group_eval float_eval)
  have c: "[mass_page 10 1] \<noteq> []" by simp
  from group_simulations_runs [of fe_tol_default "mass_page 10 1" "[mass_page 10 1]"]
  have s: "group_simulations_tol fe_tol_default [mass_page 10 1] = [[mass_page 10 1]]"
    by blast
  from group_simulations_runs [of fe_tol_default "mass_page 10 2" "[mass_page 10 1]"] a c s
  have 1: "group_simulations_tol fe_tol_default [mass_page 10 1, mass_page 10 2] =
     [[mass_page 10 1, mass_page 10 2]]" by simp
  from group_simulations_runs [of fe_tol_default "mass_page 20 2" "[mass_page 10 1]"] b c s
  have 2: "group_simulations_tol fe_tol_default [mass_page 10 1, mass_page 20 2] =
     [[mass_page 10 1], [mass_page 20 2]]" by simp
  from group_simulations_runs
    [of fe_tol_default "\<lparr>page_num = 2, T_C = Fin 0, Fe_g = None, phases = [], pure_solids = []\<rparr>"
        "[mass_page 10 1]"]
  have 3: "\<not> new_run fe_tol_default [mass_page 10 1]
       \<lparr>page_num = 2, T_C = Fin 0, Fe_g = None, phases = [], pure_solids = []\<rparr>" by simp
  from 1 2 3 show ?thesis by blast
qed

subsection \<open>The scan stops at the first metal precipitate\<close>









subsection \<open>Ranking and rendering\<close>

lemma set_insert_stable: "set (insert_stable lt x ys) = insert x (set ys)"
  by (induction ys) auto

lemma mset_insert_stable: "mset (insert_stable lt x ys) = add_mset x (mset ys)"
  by (induction ys) auto

lemma mset_sorted_stable: "mset (sorted_stable lt xs) = mset xs"
  by (induction xs) (simp_all add: sorted_stable_def mset_insert_stable)

lemma fless_antisym: "fless a b \<Longrightarrow> \<not> fless b a"
  by (cases a; cases b) auto

lemma not_fless_trans:
  "a \<noteq> NaN \<Longrightarrow> b \<noteq> NaN \<Longrightarrow> c \<noteq> NaN \<Longrightarrow> \<not> fless b a \<Longrightarrow> \<not> fless c b \<Longrightarrow> \<not> fless c a"
  by (cases a; cases b; cases c) auto

lemma sorted_insert_stable:
  assumes "key x \<noteq> NaN" and "\<forall>y \<in> set ys. key y \<noteq> NaN"
    and "sorted_wrt (\<lambda>a b. \<not> fless (key b) (key a)) ys"
  shows "sorted_wrt (\<lambda>a b. \<not> fless (key b) (key a))
           (insert_stable (\<lambda>y x. fless (key y) (key x)) x ys)"
  using assms
proof (induction ys)
  case Nil
  show ?case by simp
next
  case (Cons y ys)
  show ?case
  proof (cases "fless (key y) (key x)")
    case True
    with Cons show ?thesis
      by (auto simp: set_insert_stable dest: fless_antisym)
  next
    case False
    have "\<not> fless (key z) (key x)" if "z \<in> set ys" for z
    proof -
      from Cons.prems that have "\<not> fless (key z) (key y)" by simp
      with False Cons.prems that show ?thesis
        using not_fless_trans [of "key x" "key y" "key z"] by auto
    qed
    with False Cons.prems show ?thesis by auto
  qed
qed

lemma sorted_sorted_asc:
  assumes "\<forall>y \<in> set xs. key y \<noteq> NaN"
  shows "sorted_wrt (\<lambda>a b. \<not> fless (key b) (key a)) (sorted_asc key xs)"
  using assms
proof (induction xs)
  case Nil
  show ?case by (simp add: sorted_asc_def sorted_stable_def)
next
  case (Cons x xs)
  then have "sorted_wrt (\<lambda>a b. \<not> fless (key b) (key a)) (sorted_asc key xs)" by simp
  moreover have "\<forall>y \<in> set (sorted_asc key xs). key y \<noteq> NaN"
    using Cons.prems mset_sorted_stable [of "\<lambda>y x. fless (key y) (key x)" xs]
    by (metis list.set_intros(2) set_mset_mset sorted_asc_def)
  ultimately show ?case
    using Cons.prems sorted_insert_stable [of key x "sorted_asc key xs"]
    by (simp add: sorted_asc_def sorted_stable_def)
qed

lemma fless_fneg: "fless (fneg a) (fneg b) = fless b a"
  by (cases a; cases b) auto

lemma rank_results_sorted:
  assumes "list_all (\<lambda>r. best_Si r \<noteq> Some NaN) rs"
  shows "sorted_wrt (\<lambda>a b. \<forall>x y. best_Si a = Some x \<and> best_Si b = Some y \<longrightarrow> \<not> fless x y)
           (rank_results k rs)"
proof -
  have "\<forall>y \<in> set (filter valid_run rs). rank_key y \<noteq> NaN"
  proof
    fix y assume "y \<in> set (filter valid_run rs)"
    with assms obtain s where "best_Si y = Some s" "s \<noteq> NaN"
      by (auto simp: valid_run_def list_all_iff)
    then show "rank_key y \<noteq> NaN" by (cases s) (simp_all add: rank_key_def)
  qed
  from sorted_sorted_asc [OF this]
  have "sorted_wrt (\<lambda>a b. \<not> fless (rank_key b) (rank_key a))
          (sorted_asc rank_key (filter valid_run rs))" .
  then have "sorted_wrt (\<lambda>a b. \<forall>x y. best_Si a = Some x \<and> best_Si b = Some y \<longrightarrow> \<not> fless x y)
          (sorted_asc rank_key (filter valid_run rs))"
    by (rule sorted_wrt_mono_rel [rotated]) (auto simp: rank_key_def fless_fneg)
  then show ?thesis
    unfolding rank_results_def by (rule sorted_wrt_take)
qed

lemmas rank_eval =
  rank_results_def valid_run_def rank_key_def sorted_asc_def sorted_stable_def run_with_Si_def
  lit_def

text \<open>
  C7: the ranking keeps exactly the runs that have a best liquid (a run without one is
  left out, not ranked with the value zero), orders them so that no run is followed by
  one with a greater best silicon value, and returns the first \<open>top_k\<close> of them; the
  report uses \<open>top_k = 3\<close>. Every cell of a report row whose field is unset is the text
  \<open>not found\<close>. Runs with the best silicon values 0.03, 0.07, 0.01 and 0.09 are
  reported in the order 0.09, 0.07, 0.03.
\<close>

theorem rank_results_top:
  "mset (rank_results (length rs) rs) = mset (filter valid_run rs) \<and>
   rank_results k rs = take k (rank_results (length rs) rs) \<and>
   (list_all (\<lambda>r. best_Si r \<noteq> Some NaN) rs \<longrightarrow>
      sorted_wrt (\<lambda>a b. \<forall>x y. best_Si a = Some x \<and> best_Si b = Some y \<longrightarrow> \<not> fless x y)
        (rank_results (length rs) rs)) \<and>
   run_liquid_analysis_pages 3 pages =
     take 3 (rank_results (length (group_simulations pages))
               (map analyze_simulation (group_simulations pages))) \<and>
   (res_Fe_g r = None \<longrightarrow> report_row i r ! 1 = ''not found'') \<and>
   (best_T r = None \<longrightarrow> report_row i r ! 2 = ''not found'') \<and>
   (best_Si r = None \<longrightarrow> report_row i r ! 3 = ''not found'') \<and>
   (best_comp r = [] \<longrightarrow> report_row i r ! 4 = ''not found'') \<and>
   (stop_T r = None \<longrightarrow> report_row i r ! 5 = ''not found'') \<and>
   (stop_phases r = [] \<longrightarrow> report_row i r ! 6 = ''not found'') \<and>
   (slag_first_T r = None \<longrightarrow> report_row i r ! 7 = ''not found'') \<and>
   (slag_first_phases r = [] \<longrightarrow> report_row i r ! 8 = ''not found'') \<and>
   (slag_comp_before r = [] \<longrightarrow> report_row i r ! 9 = ''not found'') \<and>
   map best_Si
     (rank_results 3
        [run_with_Si (3 / 100), run_with_Si (7 / 100), run_with_Si (1 / 100),
         run_with_Si (9 / 100)]) =
     [Some (lit (9 / 100)), Some (lit (7 / 100)), Some (lit (3 / 100))]"
proof -
  have len: "length (sorted_asc rank_key (filter valid_run xs)) \<le> length xs" for xs
    using mset_sorted_stable [of "\<lambda>y x. fless (rank_key y) (rank_key x)" "filter valid_run xs"]
    by (metis length_filter_le size_mset sorted_asc_def)
  have 1: "mset (rank_results (length rs) rs) = mset (filter valid_run rs)"
    using len [of rs] by (simp add: rank_results_def sorted_asc_def mset_sorted_stable)
  have 2: "rank_results n xs = take n (rank_results (length xs) xs)" for n xs
    using len [of xs] by (simp add: rank_results_def)
  have 3: "run_liquid_analysis_pages 3 pages =
     take 3 (rank_results (length (group_simulations pages))
               (map analyze_simulation (group_simulations pages)))"
    using 2 [of 3 "map analyze_simulation (group_simulations pages)"]
    by (simp add: run_liquid_analysis_pages_def)
  have 4: "map best_Si
     (rank_results 3
        [run_with_Si (3 / 100), run_with_Si (7 / 100), run_with_Si (1 / 100),
         run_with_Si (9 / 100)]) =
     [Some (lit (9 / 100)), Some (lit (7 / 100)), Some (lit (3 / 100))]"
    by (simp add: rank_eval float_eval)
  have 5: "list_all (\<lambda>r. best_Si r \<noteq> Some NaN) rs \<longrightarrow>
      sorted_wrt (\<lambda>a b. \<forall>x y. best_Si a = Some x \<and> best_Si b = Some y \<longrightarrow> \<not> fless x y)
        (rank_results (length rs) rs)"
    using rank_results_sorted by blast
  have 6: "(res_Fe_g r = None \<longrightarrow> report_row i r ! 1 = ''not found'') \<and>
   (best_T r = None \<longrightarrow> report_row i r ! 2 = ''not found'') \<and>
   (best_Si r = None \<longrightarrow> report_row i r ! 3 = ''not found'') \<and>
   (best_comp r = [] \<longrightarrow> report_row i r ! 4 = ''not found'') \<and>
   (stop_T r = None \<longrightarrow> report_row i r ! 5 = ''not found'') \<and>
   (stop_phases r = [] \<longrightarrow> report_row i r ! 6 = ''not found'') \<and>
   (slag_first_T r = None \<longrightarrow> report_row i r ! 7 = ''not found'') \<and>
   (slag_first_phases r = [] \<longrightarrow> report_row i r ! 8 = ''not found'') \<and>
   (slag_comp_before r = [] \<longrightarrow> report_row i r ! 9 = ''not found'')"
    by (simp add: report_row_def not_found_def)
  from 1 2 [of k rs] 3 4 5 6 show ?thesis by blast
qed

theorem rank_results_top_witness:
  "sorted_wrt (\<lambda>a b. \<forall>x y. best_Si a = Some x \<and> best_Si b = Some y \<longrightarrow> \<not> fless x y)
     (rank_results 2 [run_with_Si 1, run_with_Si 2]) \<and>
   report_row 1 (run_with_Si 1) ! 1 = ''not found'' \<and>
   report_row 1 (run_with_Si 1) ! 5 = ''not found'' \<and>
   report_row 1 (run_with_Si 1) ! 6 = ''not found'' \<and>
   report_row 1 (run_with_Si 1) ! 7 = ''not found'' \<and>
   report_row 1 (run_with_Si 1) ! 8 = ''not found'' \<and>
   report_row 1 (run_with_Si 1) ! 9 = ''not found'' \<and>
   report_row 1 (analyze_simulation []) ! 2 = ''not found'' \<and>
   report_row 1 (analyze_simulation []) ! 3 = ''not found'' \<and>
   report_row 1 (analyze_simulation []) ! 4 = ''not found''"
proof -
  have a: "list_all (\<lambda>r. best_Si r \<noteq> Some NaN) [run_with_Si 1, run_with_Si 2]"
    by (simp add: run_with_Si_def lit_def float_eval)
  have b: "res_Fe_g (run_with_Si 1) = None \<and> stop_T (run_with_Si 1) = None \<and>
           stop_phases (run_with_Si 1) = [] \<and> slag_first_T (run_with_Si 1) = None \<and>
           slag_first_phases (run_with_Si 1) = [] \<and> slag_comp_before (run_with_Si 1) = []"
    by (simp add: run_with_Si_def)
  have c: "best_T (analyze_simulation []) = None \<and> best_Si (analyze_simulation []) = None \<and>
           best_comp (analyze_simulation []) = []"
    by (simp add: analysis_defs)
  from rank_results_top [of "[run_with_Si 1, run_with_Si 2]" 2 _ "run_with_Si 1" 1] a b
  have 1: "sorted_wrt (\<lambda>a b. \<forall>x y. best_Si a = Some x \<and> best_Si b = Some y \<longrightarrow> \<not> fless x y)
     (rank_results 2 [run_with_Si 1, run_with_Si 2]) \<and>
   report_row 1 (run_with_Si 1) ! 1 = ''not found'' \<and>
   report_row 1 (run_with_Si 1) ! 5 = ''not found'' \<and>
   report_row 1 (run_with_Si 1) ! 6 = ''not found'' \<and>
   report_row 1 (run_with_Si 1) ! 7 = ''not found'' \<and>
   report_row 1 (run_with_Si 1) ! 8 = ''not found'' \<and>
   report_row 1 (run_with_Si 1) ! 9 = ''not found''"
    by simp
  from rank_results_top [of "[]" 0 _ "analyze_simulation []" 1] c
  have 2: "report_row 1 (analyze_simulation []) ! 2 = ''not found'' \<and>
   report_row 1 (analyze_simulation []) ! 3 = ''not found'' \<and>
   report_row 1 (analyze_simulation []) ! 4 = ''not found''"
    by simp
  from 1 2 show ?thesis by blast
qed

subsection \<open>Conditions below zero degrees\<close>














end
